theory Spec2Isabelle
  imports Complex_Main "HOL-Library.AList"
begin

section \<open>The environment of the scripts\<close>

text \<open>
  The scripts of the repository drive external collaborators: ophyd devices, the bluesky
  RunEngine, a run catalog and PyEPICS process variables. A call into a collaborator
  returns a value, raises an exception that \<open>except Exception\<close> catches (the message is
  kept), or never returns. The scripts contain no \<open>raise\<close> of their own, so every
  exception of the model enters through such a call or through a failing string format.
  An exception that is not an \<open>Exception\<close> (SystemExit, KeyboardInterrupt) passes every
  \<open>except Exception\<close>; it is an outcome of a suite as a whole (see \<open>outcome\<close> below), not
  of a single call. The imports of bluesky's own modules are taken to succeed.

  A Python float is modelled by the real number that it denotes. The scripts compute
  nothing from a position; the only float operations they perform are the negation of
  \<open>move_amount\<close>, which is exact, and sums whose sign or value is printed or compared
  with zero.
\<close>

datatype 'a call = Returns 'a | Raises string | Hangs

text \<open>The Python values that a device attribute or a process variable hands back.\<close>

datatype pyval = PNone | PFloat real | PStr string

text \<open>Python's truth value of an object, as used by \<open>desc or ...\<close>.\<close>

fun truthy :: "pyval \<Rightarrow> bool" where
  "truthy PNone = False"
| "truthy (PFloat x) = (x \<noteq> 0)"
| "truthy (PStr s) = (s \<noteq> [])"

text \<open>
  A float format specification such as \<open>{pos:8.3f}\<close> or \<open>{initial_pos:.3f}\<close>: it formats a
  float and raises for \<open>None\<close> (TypeError) and for a string (ValueError).
\<close>

fun format_f :: "pyval \<Rightarrow> string + real" where
  "format_f (PFloat x) = Inr x"
| "format_f PNone = Inl ''unsupported format string passed to NoneType.__format__''"
| "format_f (PStr s) = Inl ''Unknown format code f for object of type str''"

text \<open>
  An ophyd device as the scripts use it. The hardware state \<open>'s\<close> is what the RunEngine
  changes; every attribute read is a call that depends on it. \<open>dev_channels\<close> and
  \<open>dev_cam_array_size\<close> are \<open>None\<close> when the object has no attribute \<open>channels\<close>
  (respectively \<open>cam\<close>), which is what \<open>hasattr\<close> tests; \<open>dev_cam_array_size\<close> is the
  call \<open>det.cam.array_size.get()\<close>, \<open>dev_get\<close> the call \<open>dev.get()\<close>.
\<close>

record 's device =
  dev_name :: string
  dev_position :: "'s \<Rightarrow> pyval call"
  dev_limits :: "'s \<Rightarrow> (real \<times> real) call"
  dev_connected :: "'s \<Rightarrow> bool call"
  dev_channels :: "('s \<Rightarrow> nat call) option"
  dev_cam_array_size :: "('s \<Rightarrow> nat list call) option"
  dev_get :: "'s \<Rightarrow> pyval call"

text \<open>The plans that the scripts of \<open>test_devices.py\<close> submit to the RunEngine.\<close>

datatype 's plan =
    Mvr "'s device" real
  | Count "'s device" nat
  | RelScan "'s device" "'s device" real real nat

text \<open>
  The catalog \<open>cat\<close>: its truth value (\<open>RE and cat\<close>), \<open>len(list(cat))\<close>, and the reads
  of the latest run (\<open>cat[-1]\<close>, its scan identifier and data keys) that are printed.
\<close>

record 's catalog =
  cat_bool :: "'s \<Rightarrow> bool"
  cat_len :: "'s \<Rightarrow> int call"
  cat_latest :: "'s \<Rightarrow> unit call"

text \<open>
  What \<open>exec("from my_beamline.startup import *", globals())\<close> leaves behind: the
  outcome of the import, the global \<open>RE\<close> (absent when \<open>globals().get('RE')\<close> is
  \<open>None\<close>), the global \<open>cat\<close>, and the dictionary \<open>bpp._devices_by_label\<close>.
\<close>

record 's instrument =
  startup :: "unit call"
  RE :: "('s plan \<Rightarrow> 's \<Rightarrow> unit call \<times> 's) option"
  cat :: "'s catalog option"
  devices_by_label :: "string \<rightharpoonup> 's device list"

section \<open>Device discovery\<close>

text \<open>\<open>list(bpp._devices_by_label.get(label, []))\<close>\<close>

definition discover :: "(string \<rightharpoonup> 'd list) \<Rightarrow> string \<Rightarrow> 'd list" where
  "discover registry label = (case registry label of None \<Rightarrow> [] | Some devices \<Rightarrow> devices)"

section \<open>Device connectivity (\<open>test_devices.py\<close>)\<close>

text \<open>
  One value of a result dictionary: \<open>{'connected': c, ..., 'status': ...}\<close> with the
  values read from the device, or \<open>{'status': ..., 'error': str(e)}\<close>.
\<close>

datatype 'v entry = Entry bool 'v | ErrorEntry string

text \<open>\<open>r.get('connected', False)\<close>\<close>

fun get_connected :: "'v entry \<Rightarrow> bool" where
  "get_connected (Entry conn v) = conn"
| "get_connected (ErrorEntry e) = False"

type_synonym 'v results = "(string \<times> 'v entry) list"

text \<open>
  The body of the loop over the motors. The dictionary is insertion-ordered and an
  assignment to a present key replaces its value in place, which is \<open>AList.update\<close>.
  The entry is stored before the line is printed, so a position that cannot be formatted
  replaces the stored entry by the error entry.
\<close>

definition probe_motor ::
  "'s \<Rightarrow> 's device \<Rightarrow> (pyval \<times> real \<times> real) results \<Rightarrow> (pyval \<times> real \<times> real) results option"
where
  "probe_motor s motor motor_results =
    (case dev_position motor s of
       Hangs \<Rightarrow> None
     | Raises e \<Rightarrow> Some (AList.update (dev_name motor) (ErrorEntry e) motor_results)
     | Returns pos \<Rightarrow>
    (case dev_limits motor s of
       Hangs \<Rightarrow> None
     | Raises e \<Rightarrow> Some (AList.update (dev_name motor) (ErrorEntry e) motor_results)
     | Returns limits \<Rightarrow>
    (case dev_connected motor s of
       Hangs \<Rightarrow> None
     | Raises e \<Rightarrow> Some (AList.update (dev_name motor) (ErrorEntry e) motor_results)
     | Returns conn \<Rightarrow>
    (let stored = AList.update (dev_name motor) (Entry conn (pos, limits)) motor_results
     in case format_f pos of
          Inl e \<Rightarrow> Some (AList.update (dev_name motor) (ErrorEntry e) stored)
        | Inr p \<Rightarrow> Some stored))))"

fun test_motors ::
  "'s \<Rightarrow> 's device list \<Rightarrow> (pyval \<times> real \<times> real) results \<Rightarrow> (pyval \<times> real \<times> real) results option"
where
  "test_motors s [] motor_results = Some motor_results"
| "test_motors s (motor # motors) motor_results =
    (case probe_motor s motor motor_results of
       None \<Rightarrow> None
     | Some motor_results' \<Rightarrow> test_motors s motors motor_results')"

text \<open>
  The body of the loop over the detectors. \<open>hasattr\<close> evaluates the attribute: it is
  false when the attribute is absent, and an exception of the attribute itself leaves the
  \<open>try\<close> block. The read of the array size has a bare \<open>except\<close> of its own.
\<close>

definition probe_detector :: "'s \<Rightarrow> 's device \<Rightarrow> unit results \<Rightarrow> unit results option" where
  "probe_detector s det detector_results =
    (case dev_connected det s of
       Hangs \<Rightarrow> None
     | Raises e \<Rightarrow> Some (AList.update (dev_name det) (ErrorEntry e) detector_results)
     | Returns conn \<Rightarrow>
    (let stored = AList.update (dev_name det) (Entry conn ()) detector_results
     in case dev_channels det of
          Some channels \<Rightarrow>
            (case channels s of
               Hangs \<Rightarrow> None
             | Raises e \<Rightarrow> Some (AList.update (dev_name det) (ErrorEntry e) stored)
             | Returns n \<Rightarrow> Some stored)
        | None \<Rightarrow>
            (case dev_cam_array_size det of
               Some array_size \<Rightarrow>
                 (case array_size s of
                    Hangs \<Rightarrow> None
                  | Raises e \<Rightarrow> Some stored
                  | Returns sz \<Rightarrow> Some stored)
             | None \<Rightarrow> Some stored)))"

fun test_detectors :: "'s \<Rightarrow> 's device list \<Rightarrow> unit results \<Rightarrow> unit results option" where
  "test_detectors s [] detector_results = Some detector_results"
| "test_detectors s (det # detectors) detector_results =
    (case probe_detector s det detector_results of
       None \<Rightarrow> None
     | Some detector_results' \<Rightarrow> test_detectors s detectors detector_results')"

text \<open>The body of the loop over the baseline devices: \<open>dev.get()\<close>, then \<open>dev.connected\<close>.\<close>

definition probe_baseline :: "'s \<Rightarrow> 's device \<Rightarrow> pyval results \<Rightarrow> pyval results option" where
  "probe_baseline s dev baseline_results =
    (case dev_get dev s of
       Hangs \<Rightarrow> None
     | Raises e \<Rightarrow> Some (AList.update (dev_name dev) (ErrorEntry e) baseline_results)
     | Returns v \<Rightarrow>
    (case dev_connected dev s of
       Hangs \<Rightarrow> None
     | Raises e \<Rightarrow> Some (AList.update (dev_name dev) (ErrorEntry e) baseline_results)
     | Returns conn \<Rightarrow>
         Some (AList.update (dev_name dev) (Entry conn v) baseline_results)))"

fun test_baseline :: "'s \<Rightarrow> 's device list \<Rightarrow> pyval results \<Rightarrow> pyval results option" where
  "test_baseline s [] baseline_results = Some baseline_results"
| "test_baseline s (dev # baseline) baseline_results =
    (case probe_baseline s dev baseline_results of
       None \<Rightarrow> None
     | Some baseline_results' \<Rightarrow> test_baseline s baseline baseline_results')"

text \<open>\<open>sum(1 for r in results.values() if r.get('connected', False))\<close>\<close>

definition count_connected :: "'v results \<Rightarrow> nat" where
  "count_connected results = sum_list (map (\<lambda>r. 1) (filter get_connected (map snd results)))"

text \<open>The summary of the connectivity test: the three dictionaries and the six counts.\<close>

record connectivity_report =
  motor_results :: "(pyval \<times> real \<times> real) results"
  detector_results :: "unit results"
  baseline_results :: "pyval results"
  total_motors :: nat
  connected_motors :: nat
  total_detectors :: nat
  connected_detectors :: nat
  total_baseline :: nat
  connected_baseline :: nat

definition total_devices :: "connectivity_report \<Rightarrow> nat" where
  "total_devices r = total_motors r + total_detectors r + total_baseline r"

definition connected_devices :: "connectivity_report \<Rightarrow> nat" where
  "connected_devices r = connected_motors r + connected_detectors r + connected_baseline r"

text \<open>
  The probes and the summary of \<open>test_device_connectivity\<close>, after the instrument is
  loaded: the totals are the lengths of the device lists, the connected counts are taken
  from the dictionaries.
\<close>

definition connectivity_summary :: "'s instrument \<Rightarrow> 's \<Rightarrow> connectivity_report option" where
  "connectivity_summary inst s =
    (let motors = discover (devices_by_label inst) ''motors'' in
     case test_motors s motors [] of
       None \<Rightarrow> None
     | Some mr \<Rightarrow>
    (let detectors = discover (devices_by_label inst) ''detectors'' in
     case test_detectors s detectors [] of
       None \<Rightarrow> None
     | Some dr \<Rightarrow>
    (let baseline = discover (devices_by_label inst) ''baseline'' in
     case test_baseline s baseline [] of
       None \<Rightarrow> None
     | Some br \<Rightarrow>
         Some \<lparr>motor_results = mr, detector_results = dr, baseline_results = br,
               total_motors = length motors, connected_motors = count_connected mr,
               total_detectors = length detectors, connected_detectors = count_connected dr,
               total_baseline = length baseline, connected_baseline = count_connected br\<rparr>)))"

text \<open>
  \<open>test_device_connectivity\<close>: \<open>None\<close> when a call never returns; an exception of the
  import is caught by the outer handler, which returns \<open>False\<close>.
\<close>

definition test_device_connectivity :: "'s instrument \<Rightarrow> 's \<Rightarrow> bool option" where
  "test_device_connectivity inst s =
    (case startup inst of
       Hangs \<Rightarrow> None
     | Raises e \<Rightarrow> Some False
     | Returns u \<Rightarrow>
         (case connectivity_summary inst s of
            None \<Rightarrow> None
          | Some r \<Rightarrow> Some (connected_devices r = total_devices r)))"

section \<open>Device operations (\<open>test_devices.py\<close>)\<close>

text \<open>
  \<open>move_amount = 0.1\<close>: the value of the float literal, which is the double nearest to
  one tenth, \<open>3602879701896397 / 2 ^ 55\<close>.
\<close>

definition move_amount :: real where
  "move_amount = 3602879701896397 / 36028797018963968"

text \<open>
  \<open>test_motor.position\<close> followed by the print of it with \<open>:.3f\<close>: the value read when
  it is a float, the exception of the read or of the format otherwise.
\<close>

definition read_position :: "'s device \<Rightarrow> 's \<Rightarrow> real call" where
  "read_position motor s =
    (case dev_position motor s of
       Hangs \<Rightarrow> Hangs
     | Raises e \<Rightarrow> Raises e
     | Returns pos \<Rightarrow> (case format_f pos of Inl e \<Rightarrow> Raises e | Inr p \<Rightarrow> Returns p))"

text \<open>
  The motor motion test: the \<open>try\<close> block of \<open>test_device_operations\<close> that moves the
  first motor by \<open>+move_amount\<close> and back. It passes when no statement raises; the three
  positions are printed and never compared.
\<close>

datatype motion = MotionPassed real real real | MotionFailed string

definition motor_motion_test ::
  "('s plan \<Rightarrow> 's \<Rightarrow> unit call \<times> 's) \<Rightarrow> 's device \<Rightarrow> 's \<Rightarrow> (motion \<times> 's) option"
where
  "motor_motion_test engine test_motor s =
    (case read_position test_motor s of
       Hangs \<Rightarrow> None
     | Raises e \<Rightarrow> Some (MotionFailed e, s)
     | Returns initial_pos \<Rightarrow>
    (case engine (Mvr test_motor move_amount) s of
       (Hangs, s1) \<Rightarrow> None
     | (Raises e, s1) \<Rightarrow> Some (MotionFailed e, s1)
     | (Returns u, s1) \<Rightarrow>
    (case read_position test_motor s1 of
       Hangs \<Rightarrow> None
     | Raises e \<Rightarrow> Some (MotionFailed e, s1)
     | Returns new_pos \<Rightarrow>
    (case engine (Mvr test_motor (- move_amount)) s1 of
       (Hangs, s2) \<Rightarrow> None
     | (Raises e, s2) \<Rightarrow> Some (MotionFailed e, s2)
     | (Returns u, s2) \<Rightarrow>
    (case read_position test_motor s2 of
       Hangs \<Rightarrow> None
     | Raises e \<Rightarrow> Some (MotionFailed e, s2)
     | Returns final_pos \<Rightarrow> Some (MotionPassed initial_pos new_pos final_pos, s2))))))"

text \<open>The detector counting test: \<open>RE(bp.count([test_detector], num=1))\<close> in its \<open>try\<close>.\<close>

definition detector_count_test ::
  "('s plan \<Rightarrow> 's \<Rightarrow> unit call \<times> 's) \<Rightarrow> 's device \<Rightarrow> 's \<Rightarrow> (bool \<times> 's) option"
where
  "detector_count_test engine test_detector s =
    (case engine (Count test_detector 1) s of
       (Hangs, s1) \<Rightarrow> None
     | (Raises e, s1) \<Rightarrow> Some (False, s1)
     | (Returns u, s1) \<Rightarrow> Some (True, s1))"

text \<open>
  \<open>test_device_operations\<close>: each of the two tests runs on the first device of its label
  when there is one, and the function returns \<open>True\<close> whatever the two tests report.
\<close>

definition test_device_operations :: "'s instrument \<Rightarrow> 's \<Rightarrow> (bool \<times> 's) option" where
  "test_device_operations inst s =
    (case startup inst of
       Hangs \<Rightarrow> None
     | Raises e \<Rightarrow> Some (False, s)
     | Returns u \<Rightarrow>
    (case RE inst of
       None \<Rightarrow> Some (False, s)
     | Some engine \<Rightarrow>
    (case (case discover (devices_by_label inst) ''motors'' of
             [] \<Rightarrow> Some s
           | test_motor # others \<Rightarrow> map_option snd (motor_motion_test engine test_motor s)) of
       None \<Rightarrow> None
     | Some s1 \<Rightarrow>
    (case (case discover (devices_by_label inst) ''detectors'' of
             [] \<Rightarrow> Some s1
           | test_detector # others \<Rightarrow> map_option snd (detector_count_test engine test_detector s1)) of
       None \<Rightarrow> None
     | Some s2 \<Rightarrow> Some (True, s2)))))"

section \<open>Data collection (\<open>test_devices.py\<close>)\<close>

text \<open>
  \<open>test_data_collection\<close>: it returns \<open>False\<close> when \<open>RE\<close> or \<open>cat\<close> is missing or false,
  and when there is no motor or no detector; otherwise it scans and compares the number
  of runs in the catalog before and after.
\<close>

definition test_data_collection :: "'s instrument \<Rightarrow> 's \<Rightarrow> (bool \<times> 's) option" where
  "test_data_collection inst s =
    (case startup inst of
       Hangs \<Rightarrow> None
     | Raises e \<Rightarrow> Some (False, s)
     | Returns u \<Rightarrow>
    (case (RE inst, cat inst) of
       (None, c) \<Rightarrow> Some (False, s)
     | (Some engine, None) \<Rightarrow> Some (False, s)
     | (Some engine, Some catalog) \<Rightarrow>
    (if \<not> cat_bool catalog s then Some (False, s)
     else
    (case (discover (devices_by_label inst) ''motors'',
           discover (devices_by_label inst) ''detectors'') of
       ([], ds) \<Rightarrow> Some (False, s)
     | (test_motor # ms, []) \<Rightarrow> Some (False, s)
     | (test_motor # ms, test_detector # ds) \<Rightarrow>
    (case cat_len catalog s of
       Hangs \<Rightarrow> None
     | Raises e \<Rightarrow> Some (False, s)
     | Returns initial_runs \<Rightarrow>
    (case engine (RelScan test_detector test_motor (- (2 / 10)) (2 / 10) 5) s of
       (Hangs, s1) \<Rightarrow> None
     | (Raises e, s1) \<Rightarrow> Some (False, s1)
     | (Returns u, s1) \<Rightarrow>
    (case cat_len catalog s1 of
       Hangs \<Rightarrow> None
     | Raises e \<Rightarrow> Some (False, s1)
     | Returns final_runs \<Rightarrow>
    (let new_runs = final_runs - initial_runs in
     if new_runs > 0 then
       (case cat_latest catalog s1 of
          Hangs \<Rightarrow> None
        | Raises e \<Rightarrow> Some (False, s1)
        | Returns u \<Rightarrow> Some (True, s1))
     else Some (False, s1)))))))))"

section \<open>Running the suites (\<open>main\<close> of \<open>test_devices.py\<close>, \<open>validate_setup.py\<close>)\<close>

text \<open>
  What a call of a suite function does in the end: it returns a truth value, it raises an
  exception that \<open>except Exception\<close> catches, or it raises one that is not an
  \<open>Exception\<close> (SystemExit, KeyboardInterrupt), which no handler of the scripts catches
  and which ends the process with the exit status given.
\<close>

datatype outcome = Returned bool | Raised string | Escaped int

text \<open>
  A suite is a function called without arguments that acts on the world \<open>'w\<close>; it is
  \<open>None\<close> where it never returns.
\<close>

type_synonym 'w suite = "'w \<Rightarrow> (outcome \<times> 'w) option"

text \<open>
  The loop \<open>for test_name, test_func in tests\<close>: the result of the call is appended to
  \<open>results\<close>, and so is \<open>False\<close> when the call raises an \<open>Exception\<close>. Any other
  exception leaves the loop and the function around it: the run ends with its exit
  status (\<open>Inl\<close>) and without results.
\<close>

fun run_tests ::
  "(string \<times> 'w suite) list \<Rightarrow> (string \<times> bool) list \<Rightarrow> 'w \<Rightarrow>
   ((int + (string \<times> bool) list) \<times> 'w) option"
where
  "run_tests [] results w = Some (Inr results, w)"
| "run_tests ((test_name, test_func) # tests) results w =
    (case test_func w of
       None \<Rightarrow> None
     | Some (Returned success, w') \<Rightarrow> run_tests tests (results @ [(test_name, success)]) w'
     | Some (Raised e, w') \<Rightarrow> run_tests tests (results @ [(test_name, False)]) w'
     | Some (Escaped status, w') \<Rightarrow> Some (Inl status, w'))"

text \<open>The loop that counts: \<open>passed = 0\<close>, then \<open>passed += 1\<close> for each success.\<close>

fun count_passed :: "(string \<times> bool) list \<Rightarrow> nat \<Rightarrow> nat" where
  "count_passed [] passed = passed"
| "count_passed ((test_name, success) # results) passed =
    count_passed results (if success then passed + 1 else passed)"

text \<open>
  \<open>main\<close> of \<open>test_devices.py\<close> over a list of suites: the value it returns is the exit
  code, since the script ends with \<open>sys.exit(main())\<close>; an exception that left the loop
  leaves \<open>main\<close> too and sets the exit code.
\<close>

definition test_devices_main :: "(string \<times> 'w suite) list \<Rightarrow> 'w \<Rightarrow> (int \<times> 'w) option" where
  "test_devices_main tests w =
    (case run_tests tests [] w of
       None \<Rightarrow> None
     | Some (Inl status, w') \<Rightarrow> Some (status, w')
     | Some (Inr results, w') \<Rightarrow>
         (let passed = count_passed results 0
          in if passed = length results then Some (0, w') else Some (1, w')))"

text \<open>
  The three suites of \<open>test_devices.py\<close>: each has an outer \<open>except Exception\<close>, so with
  calls that return, raise an \<open>Exception\<close> or never return, each returns a truth value
  or never returns.
\<close>

definition test_devices_tests :: "'s instrument \<Rightarrow> (string \<times> 's suite) list" where
  "test_devices_tests inst =
    [(''Device Connectivity'',
        \<lambda>s. map_option (\<lambda>b. (Returned b, s)) (test_device_connectivity inst s)),
     (''Device Operations'',
        \<lambda>s. map_option (\<lambda>(b, s'). (Returned b, s')) (test_device_operations inst s)),
     (''Data Collection'',
        \<lambda>s. map_option (\<lambda>(b, s'). (Returned b, s')) (test_data_collection inst s))]"

text \<open>
  \<open>generate_summary_report\<close> and \<open>main\<close> of \<open>validate_setup.py\<close>: the same two loops;
  the report is true when every suite passed, and \<open>main\<close> calls \<open>sys.exit(0)\<close> or
  \<open>sys.exit(1)\<close>. An exception that left the loop leaves both functions. The seven
  checks of that script are the parameter \<open>tests\<close>.
\<close>

definition generate_summary_report ::
  "(string \<times> 'w suite) list \<Rightarrow> 'w \<Rightarrow> ((int + bool) \<times> 'w) option"
where
  "generate_summary_report tests w =
    (case run_tests tests [] w of
       None \<Rightarrow> None
     | Some (Inl status, w') \<Rightarrow> Some (Inl status, w')
     | Some (Inr results, w') \<Rightarrow> Some (Inr (count_passed results 0 = length results), w'))"

definition validate_setup_main :: "(string \<times> 'w suite) list \<Rightarrow> 'w \<Rightarrow> (int \<times> 'w) option" where
  "validate_setup_main tests w =
    (case generate_summary_report tests w of
       None \<Rightarrow> None
     | Some (Inl status, w') \<Rightarrow> Some (status, w')
     | Some (Inr success, w') \<Rightarrow> if success then Some (0, w') else Some (1, w'))"

section \<open>The IOC explorer (\<open>explore_iocs.py\<close>)\<close>

text \<open>
  PyEPICS as the explorer uses it, over the state \<open>'c\<close> of the IOCs: the construction of
  \<open>epics.PV(name)\<close>, \<open>pv.wait_for_connection(timeout=t)\<close>, \<open>pv.get()\<close> and
  \<open>pv.put(v)\<close>. Only \<open>put\<close> hands back a new state of the IOCs. The module is absent
  (\<open>None\<close>) when \<open>import epics\<close> failed, which is \<open>EPICS_AVAILABLE = False\<close>.
\<close>

record 'c epics =
  pv_new :: "string \<Rightarrow> 'c \<Rightarrow> unit call"
  pv_wait_for_connection :: "string \<Rightarrow> real \<Rightarrow> 'c \<Rightarrow> bool call"
  pv_get :: "string \<Rightarrow> 'c \<Rightarrow> pyval call"
  pv_put :: "string \<Rightarrow> pyval \<Rightarrow> 'c \<Rightarrow> unit call \<times> 'c"

text \<open>The attributes that \<open>IOCExplorer.__init__\<close> sets.\<close>

record explorer =
  demo_prefixes :: "string list"
  timeout :: real

definition IOCExplorer :: explorer where
  "IOCExplorer = \<lparr>demo_prefixes = [''gp:'', ''adsim:''], timeout = 5\<rparr>"

text \<open>\<open>str(i)\<close> of a natural number, as the f-strings \<open>f"gp:m{i}"\<close> need it.\<close>

definition digit_char :: "nat \<Rightarrow> char" where
  "digit_char d = ''0123456789'' ! d"

fun str_nat :: "nat \<Rightarrow> string" where
  "str_nat n = (if n < 10 then [digit_char n] else str_nat (n div 10) @ [digit_char (n mod 10)])"

declare str_nat.simps [simp del]

text \<open>
  \<open>test_connectivity\<close>: the loop over the two test PVs counts the PVs that connect within
  \<open>self.timeout\<close> and whose value can be read for the print.
\<close>

fun test_pvs_loop :: "explorer \<Rightarrow> 'c epics \<Rightarrow> 'c \<Rightarrow> string list \<Rightarrow> nat \<Rightarrow> nat option" where
  "test_pvs_loop self ep c [] connected_count = Some connected_count"
| "test_pvs_loop self ep c (pv_name # test_pvs) connected_count =
    (case pv_new ep pv_name c of
       Hangs \<Rightarrow> None
     | Raises e \<Rightarrow> test_pvs_loop self ep c test_pvs connected_count
     | Returns pv \<Rightarrow>
    (case pv_wait_for_connection ep pv_name (timeout self) c of
       Hangs \<Rightarrow> None
     | Raises e \<Rightarrow> test_pvs_loop self ep c test_pvs connected_count
     | Returns False \<Rightarrow> test_pvs_loop self ep c test_pvs connected_count
     | Returns True \<Rightarrow>
    (case pv_get ep pv_name c of
       Hangs \<Rightarrow> None
     | Raises e \<Rightarrow> test_pvs_loop self ep c test_pvs connected_count
     | Returns v \<Rightarrow> test_pvs_loop self ep c test_pvs (connected_count + 1))))"

definition test_connectivity :: "explorer \<Rightarrow> 'c epics option \<Rightarrow> 'c \<Rightarrow> bool option" where
  "test_connectivity self epics_module c =
    (case epics_module of
       None \<Rightarrow> Some False
     | Some ep \<Rightarrow>
         (let test_pvs = [''gp:m1.DESC'', ''adsim:cam1:Acquire'']
          in case test_pvs_loop self ep c test_pvs 0 of
               None \<Rightarrow> None
             | Some connected_count \<Rightarrow> Some (connected_count = length test_pvs)))"

text \<open>One dictionary of the list that \<open>find_motors\<close> returns.\<close>

record motor_info =
  motor_pv :: string
  motor_description :: pyval
  motor_type :: string

text \<open>
  \<open>find_motors\<close>: the loop over \<open>range(1, 21)\<close>. With PyEPICS the description PV decides
  whether the motor is listed, and the bare \<open>except\<close> drops a motor whose PV raises;
  without PyEPICS every expected motor is listed.
\<close>

fun find_motors_loop ::
  "'c epics option \<Rightarrow> 'c \<Rightarrow> nat list \<Rightarrow> motor_info list \<Rightarrow> motor_info list option"
where
  "find_motors_loop epics_module c [] motors = Some motors"
| "find_motors_loop epics_module c (i # rest) motors =
    (let pv_base = ''gp:m'' @ str_nat i in
     case epics_module of
       None \<Rightarrow>
         find_motors_loop epics_module c rest
           (motors @ [\<lparr>motor_pv = pv_base,
                       motor_description = PStr (''Motor '' @ str_nat i),
                       motor_type = ''EpicsMotor''\<rparr>])
     | Some ep \<Rightarrow>
    (case pv_new ep (pv_base @ ''.DESC'') c of
       Hangs \<Rightarrow> None
     | Raises e \<Rightarrow> find_motors_loop epics_module c rest motors
     | Returns desc_pv \<Rightarrow>
    (case pv_wait_for_connection ep (pv_base @ ''.DESC'') 1 c of
       Hangs \<Rightarrow> None
     | Raises e \<Rightarrow> find_motors_loop epics_module c rest motors
     | Returns False \<Rightarrow> find_motors_loop epics_module c rest motors
     | Returns True \<Rightarrow>
    (case pv_get ep (pv_base @ ''.DESC'') c of
       Hangs \<Rightarrow> None
     | Raises e \<Rightarrow> find_motors_loop epics_module c rest motors
     | Returns desc \<Rightarrow>
         find_motors_loop epics_module c rest
           (motors @ [\<lparr>motor_pv = pv_base,
                       motor_description =
                         (if truthy desc then desc else PStr (''Motor '' @ str_nat i)),
                       motor_type = ''EpicsMotor''\<rparr>])))))"

definition find_motors :: "'c epics option \<Rightarrow> 'c \<Rightarrow> motor_info list option" where
  "find_motors epics_module c = find_motors_loop epics_module c [1..<21] []"

text \<open>The dictionaries that \<open>find_detectors\<close> builds; it calls nothing of PyEPICS.\<close>

record scaler_info =
  scaler_pv :: string
  scaler_description :: string
  scaler_type :: string
  scaler_channels :: nat

record area_detector_info =
  area_pv :: string
  area_description :: string
  area_type :: string
  area_dimensions :: "nat list"

record detectors_found =
  scalers :: "scaler_info list"
  area_detectors :: "area_detector_info list"

fun find_scalers_loop :: "nat list \<Rightarrow> scaler_info list \<Rightarrow> scaler_info list" where
  "find_scalers_loop [] found = found"
| "find_scalers_loop (i # rest) found =
    find_scalers_loop rest
      (found @ [\<lparr>scaler_pv = ''gp:scaler'' @ str_nat i,
                 scaler_description = ''Scaler '' @ str_nat i,
                 scaler_type = ''ScalerCH'',
                 scaler_channels = 32\<rparr>])"

definition find_detectors :: detectors_found where
  "find_detectors =
    \<lparr>scalers = find_scalers_loop [1..<4] [],
     area_detectors =
       [] @ [\<lparr>area_pv = ''adsim:'',
               area_description = ''Simulated Area Detector'',
               area_type = ''ADBSoftDetector'',
               area_dimensions = [1024, 1024]\<rparr>]\<rparr>"



text \<open>
  \<open>test_scaler_count\<close>, the sibling that does write: it puts the count time into \<open>.T\<close> and
  1 into \<open>.CNT\<close>, sleeps for \<open>count_time + 0.5\<close> seconds and reads \<open>.S1\<close>. \<open>time.sleep\<close>
  raises ValueError for a negative length, which the handler turns into \<open>False\<close>.
\<close>

definition test_scaler_count ::
  "'c epics option \<Rightarrow> string \<Rightarrow> real \<Rightarrow> 'c \<Rightarrow> (bool \<times> 'c) option"
where
  "test_scaler_count epics_module scaler_pv_name count_time c =
    (case epics_module of
       None \<Rightarrow> Some (False, c)
     | Some ep \<Rightarrow>
    (case pv_new ep (scaler_pv_name @ ''.T'') c of
       Hangs \<Rightarrow> None
     | Raises e \<Rightarrow> Some (False, c)
     | Returns time_pv \<Rightarrow>
    (case pv_new ep (scaler_pv_name @ ''.CNT'') c of
       Hangs \<Rightarrow> None
     | Raises e \<Rightarrow> Some (False, c)
     | Returns count_pv \<Rightarrow>
    (case pv_wait_for_connection ep (scaler_pv_name @ ''.T'') 2 c of
       Hangs \<Rightarrow> None
     | Raises e \<Rightarrow> Some (False, c)
     | Returns False \<Rightarrow> Some (False, c)
     | Returns True \<Rightarrow>
    (case pv_wait_for_connection ep (scaler_pv_name @ ''.CNT'') 2 c of
       Hangs \<Rightarrow> None
     | Raises e \<Rightarrow> Some (False, c)
     | Returns False \<Rightarrow> Some (False, c)
     | Returns True \<Rightarrow>
    (case pv_put ep (scaler_pv_name @ ''.T'') (PFloat count_time) c of
       (Hangs, c1) \<Rightarrow> None
     | (Raises e, c1) \<Rightarrow> Some (False, c1)
     | (Returns u, c1) \<Rightarrow>
    (case pv_put ep (scaler_pv_name @ ''.CNT'') (PFloat 1) c1 of
       (Hangs, c2) \<Rightarrow> None
     | (Raises e, c2) \<Rightarrow> Some (False, c2)
     | (Returns u, c2) \<Rightarrow>
    (if count_time + 1 / 2 < 0 then Some (False, c2)
     else
    (case pv_new ep (scaler_pv_name @ ''.S1'') c2 of
       Hangs \<Rightarrow> None
     | Raises e \<Rightarrow> Some (False, c2)
     | Returns s1_pv \<Rightarrow>
    (case pv_wait_for_connection ep (scaler_pv_name @ ''.S1'') 1 c2 of
       Hangs \<Rightarrow> None
     | Raises e \<Rightarrow> Some (False, c2)
     | Returns False \<Rightarrow> Some (False, c2)
     | Returns True \<Rightarrow>
    (case pv_get ep (scaler_pv_name @ ''.S1'') c2 of
       Hangs \<Rightarrow> None
     | Raises e \<Rightarrow> Some (False, c2)
     | Returns counts \<Rightarrow> Some (True, c2))))))))))))"

section \<open>Plan simulation (\<open>test_plans.py\<close>)\<close>

text \<open>
  \<open>test_plan_simulation\<close> up to its plans. \<open>startup_module\<close> is the outcome of the loop
  that imports the first instrument package that exists (\<open>None\<close> when there is none); a
  package without \<open>RE\<close> makes \<open>getattr\<close> raise, which the outer handler turns into
  \<open>False\<close>. The statements after the check of the device lists run the plans of the
  package \<open>plans.custom_plans\<close>, which is not part of the repository: they are the
  parameter \<open>run_custom_plans\<close>.
\<close>

definition test_plan_simulation ::
  "'s instrument option call \<Rightarrow>
   (('s plan \<Rightarrow> 's \<Rightarrow> unit call \<times> 's) \<Rightarrow> 's device list \<Rightarrow> 's device list \<Rightarrow> 's \<Rightarrow> (bool \<times> 's) option) \<Rightarrow>
   's \<Rightarrow> (bool \<times> 's) option"
where
  "test_plan_simulation startup_module run_custom_plans s =
    (case startup_module of
       Hangs \<Rightarrow> None
     | Raises e \<Rightarrow> Some (False, s)
     | Returns None \<Rightarrow> Some (False, s)
     | Returns (Some inst) \<Rightarrow>
    (case RE inst of
       None \<Rightarrow> Some (False, s)
     | Some engine \<Rightarrow>
    (case (discover (devices_by_label inst) ''motors'',
           discover (devices_by_label inst) ''detectors'') of
       ([], ds) \<Rightarrow> Some (False, s)
     | (m # ms, []) \<Rightarrow> Some (False, s)
     | (m # ms, d # ds) \<Rightarrow> run_custom_plans engine (m # ms) (d # ds) s)))"

section \<open>Predicates of the statements\<close>

text \<open>A suite completes when it returns or raises an \<open>Exception\<close>.\<close>

definition completes :: "(outcome \<times> 'w) option \<Rightarrow> bool" where
  "completes r =
    (case r of
       None \<Rightarrow> False
     | Some (Returned b, w) \<Rightarrow> True
     | Some (Raised e, w) \<Rightarrow> True
     | Some (Escaped status, w) \<Rightarrow> False)"

text \<open>A call answers when it returns or raises.\<close>

definition answers :: "'a call \<Rightarrow> bool" where
  "answers r = (r \<noteq> Hangs)"

text \<open>The calls that the probe of a baseline device reaches all answer.\<close>

definition baseline_reads_answer :: "'s \<Rightarrow> 's device \<Rightarrow> bool" where
  "baseline_reads_answer s dev =
    (case dev_get dev s of
       Hangs \<Rightarrow> False
     | Raises e \<Rightarrow> True
     | Returns v \<Rightarrow> answers (dev_connected dev s))"

text \<open>The calls that the explorer's check of one PV reaches all answer.\<close>

definition pv_reads_answer :: "explorer \<Rightarrow> 'c epics \<Rightarrow> 'c \<Rightarrow> string \<Rightarrow> bool" where
  "pv_reads_answer self ep c pv_name =
    (case pv_new ep pv_name c of
       Hangs \<Rightarrow> False
     | Raises e \<Rightarrow> True
     | Returns pv \<Rightarrow>
    (case pv_wait_for_connection ep pv_name (timeout self) c of
       Hangs \<Rightarrow> False
     | Raises e \<Rightarrow> True
     | Returns False \<Rightarrow> True
     | Returns True \<Rightarrow> answers (pv_get ep pv_name c)))"

section \<open>Simulated collaborators\<close>

text \<open>
  A simulated axis: the hardware state is its position. It is connected, reads back its
  position, and has no \<open>channels\<close> and no \<open>cam\<close>.
\<close>

definition sim_motor :: "string \<Rightarrow> real device" where
  "sim_motor n =
    \<lparr>dev_name = n,
     dev_position = (\<lambda>s. Returns (PFloat s)),
     dev_limits = (\<lambda>s. Returns (- 100, 100)),
     dev_connected = (\<lambda>s. Returns True),
     dev_channels = None,
     dev_cam_array_size = None,
     dev_get = (\<lambda>s. Returns (PFloat s))\<rparr>"


definition faulty_motor :: "string \<Rightarrow> real device" where
  "faulty_motor n =
    (sim_motor n)\<lparr>dev_position := (\<lambda>s. Raises ''fault''), dev_get := (\<lambda>s. Raises ''fault'')\<rparr>"

definition silent_motor :: "string \<Rightarrow> real device" where
  "silent_motor n = (sim_motor n)\<lparr>dev_position := (\<lambda>s. Hangs), dev_get := (\<lambda>s. Hangs)\<rparr>"

text \<open>
  An engine whose relative move adds the displacement to the position, as real numbers.
\<close>

fun exact_engine :: "real plan \<Rightarrow> real \<Rightarrow> unit call \<times> real" where
  "exact_engine (Mvr motor d) s = (Returns (), s + d)"
| "exact_engine (Count det n) s = (Returns (), s)"
| "exact_engine (RelScan det motor a b n) s = (Returns (), s)"

text \<open>An engine on an axis that does not run backwards: a negative move completes in place.\<close>

fun forward_only_engine :: "real plan \<Rightarrow> real \<Rightarrow> unit call \<times> real" where
  "forward_only_engine (Mvr motor d) s = (Returns (), if d > 0 then s + d else s)"
| "forward_only_engine (Count det n) s = (Returns (), s)"
| "forward_only_engine (RelScan det motor a b n) s = (Returns (), s)"

definition sim_catalog :: "real catalog" where
  "sim_catalog = \<lparr>cat_bool = (\<lambda>s. True), cat_len = (\<lambda>s. Returns 1), cat_latest = (\<lambda>s. Returns ())\<rparr>"

text \<open>An instrument with the given motors and nothing else registered.\<close>

definition sim_instrument :: "real device list \<Rightarrow> real instrument" where
  "sim_instrument ms =
    \<lparr>startup = Returns (), RE = Some exact_engine, cat = Some sim_catalog,
     devices_by_label = [''motors'' \<mapsto> ms]\<rparr>"

text \<open>
  Simulated PyEPICS over one value: every PV connects, \<open>put\<close> of a float stores it, and
  \<open>get\<close> hands back the value, \<open>None\<close>, or nothing at all.
\<close>

definition sim_epics :: "real epics" where
  "sim_epics =
    \<lparr>pv_new = (\<lambda>n c. Returns ()),
     pv_wait_for_connection = (\<lambda>n t c. Returns True),
     pv_get = (\<lambda>n c. Returns (PFloat c)),
     pv_put = (\<lambda>n v c. (Returns (), case v of PFloat x \<Rightarrow> x | PNone \<Rightarrow> c | PStr str \<Rightarrow> c))\<rparr>"


definition silent_epics :: "real epics" where
  "silent_epics = sim_epics\<lparr>pv_get := (\<lambda>n c. Hangs)\<rparr>"

text \<open>
  An instrument whose state is the number of runs in its catalog: a motor and a detector
  that are connected, an engine that refuses moves and counts and records a run for a
  scan, and a catalog that is true when it holds a run.
\<close>

definition plain_device :: "string \<Rightarrow> int device" where
  "plain_device n =
    \<lparr>dev_name = n,
     dev_position = (\<lambda>s. Returns (PFloat 0)),
     dev_limits = (\<lambda>s. Returns (- 100, 100)),
     dev_connected = (\<lambda>s. Returns True),
     dev_channels = None,
     dev_cam_array_size = None,
     dev_get = (\<lambda>s. Returns (PFloat 0))\<rparr>"

fun scan_only_engine :: "int plan \<Rightarrow> int \<Rightarrow> unit call \<times> int" where
  "scan_only_engine (Mvr motor d) s = (Raises ''motor stalled'', s)"
| "scan_only_engine (Count det n) s = (Raises ''count failed'', s)"
| "scan_only_engine (RelScan det motor a b n) s = (Returns (), s + 1)"

definition run_catalog :: "int catalog" where
  "run_catalog = \<lparr>cat_bool = (\<lambda>s. 0 < s), cat_len = (\<lambda>s. Returns s), cat_latest = (\<lambda>s. Returns ())\<rparr>"

definition scan_only_instrument :: "int instrument" where
  "scan_only_instrument =
    \<lparr>startup = Returns (), RE = Some scan_only_engine, cat = Some run_catalog,
     devices_by_label =
       [''motors'' \<mapsto> [plain_device ''m1''], ''detectors'' \<mapsto> [plain_device ''det1'']]\<rparr>"

section \<open>Lemmas about the loops\<close>

text \<open>The counting loop adds the number of successes to its start value.\<close>

lemma count_passed_filter: "count_passed results passed = passed + length (filter snd results)"
  by (induction results passed rule: count_passed.induct) auto

lemma filter_all_conv: "length (filter P xs) = length xs \<longleftrightarrow> (\<forall>x\<in>set xs. P x)"
  by (metis filter_id_conv length_filter_less less_irrefl)

lemma all_passed_conv: "count_passed results 0 = length results \<longleftrightarrow> (\<forall>r\<in>set results. snd r)"
  by (simp add: count_passed_filter filter_all_conv)

lemma main_tally_invariant:
  "count_passed results 0 = length (filter snd results) \<and>
   count_passed results 0 + length (filter (\<lambda>r. \<not> snd r) results) = length results"
  by (simp add: count_passed_filter sum_length_filter_compl)

text \<open>
  The loop over the suites runs a list of suites piece by piece. When every suite
  completes, it calls each suite once, on the world that the suite before it left, and
  records what the suite returned, \<open>False\<close> when it raised. A suite that escapes ends
  the run with its exit status.
\<close>

lemma completes_cases:
  "completes r \<longleftrightarrow> (\<exists>b w. r = Some (Returned b, w)) \<or> (\<exists>e w. r = Some (Raised e, w))"
  by (auto simp add: completes_def split: option.splits outcome.splits)

lemma run_tests_step:
  assumes "f w = Some (out, w1)" and "\<forall>status. out \<noteq> Escaped status"
  shows "run_tests ((n, f) # tests) acc w = run_tests tests (acc @ [(n, out = Returned True)]) w1"
  using assms by (cases out) auto

lemma run_tests_append:
  "run_tests (pre @ post) acc w =
     (case run_tests pre acc w of
        None \<Rightarrow> None
      | Some (Inl status, w1) \<Rightarrow> Some (Inl status, w1)
      | Some (Inr r1, w1) \<Rightarrow> run_tests post r1 w1)"
proof (induction pre acc w rule: run_tests.induct)
  case (1 results w)
  then show ?case by simp
next
  case (2 test_name test_func tests results w)
  then show ?case
    by (auto split: option.splits outcome.splits prod.splits sum.splits)
qed

lemma run_tests_trace:
  assumes "\<forall>t\<in>set tests. \<forall>w. completes (snd t w)"
  shows "\<exists>rs ws. run_tests tests acc w = Some (Inr (acc @ rs), last (w # ws)) \<and>
           length ws = length tests \<and> length rs = length tests \<and>
           (\<forall>i<length tests. \<exists>out.
              snd (tests ! i) ((w # ws) ! i) = Some (out, ws ! i) \<and>
              rs ! i = (fst (tests ! i), out = Returned True))"
  using assms
proof (induction tests arbitrary: acc w)
  case Nil
  then show ?case by simp
next
  case (Cons t tests)
  obtain n f where t: "t = (n, f)" by (cases t)
  from Cons.prems t have "completes (f w)" by simp
  then obtain out w1 where fw: "f w = Some (out, w1)" and ne: "\<forall>status. out \<noteq> Escaped status"
    by (auto simp add: completes_cases)
  from Cons.prems have "\<forall>t\<in>set tests. \<forall>w. completes (snd t w)" by simp
  from Cons.IH [OF this, of "acc @ [(n, out = Returned True)]" w1]
  obtain rs ws where run: "run_tests tests (acc @ [(n, out = Returned True)]) w1 =
        Some (Inr ((acc @ [(n, out = Returned True)]) @ rs), last (w1 # ws))"
    and lw: "length ws = length tests" and lr: "length rs = length tests"
    and tr: "\<forall>i<length tests. \<exists>out.
              snd (tests ! i) ((w1 # ws) ! i) = Some (out, ws ! i) \<and>
              rs ! i = (fst (tests ! i), out = Returned True)"
    by blast
  let ?rs = "(n, out = Returned True) # rs" and ?ws = "w1 # ws"
  have "run_tests (t # tests) acc w = Some (Inr (acc @ ?rs), last (w # ?ws))"
    using run run_tests_step [of f w out w1 n tests acc] fw ne t by simp
  moreover have "length ?ws = length (t # tests)" "length ?rs = length (t # tests)"
    using lw lr by simp_all
  moreover have "\<forall>i<length (t # tests). \<exists>out.
              snd ((t # tests) ! i) ((w # ?ws) ! i) = Some (out, ?ws ! i) \<and>
              ?rs ! i = (fst ((t # tests) ! i), out = Returned True)"
  proof (intro allI impI)
    fix i assume i: "i < length (t # tests)"
    show "\<exists>out. snd ((t # tests) ! i) ((w # ?ws) ! i) = Some (out, ?ws ! i) \<and>
              ?rs ! i = (fst ((t # tests) ! i), out = Returned True)"
    proof (cases i)
      case 0
      with fw t show ?thesis by simp
    next
      case (Suc j)
      with i have "j < length tests" by simp
      with tr Suc show ?thesis by simp
    qed
  qed
  ultimately show ?case by blast
qed

lemma run_tests_escape:
  assumes "\<forall>t\<in>set pre. \<forall>w. completes (snd t w)"
    and "\<forall>w. \<exists>w1. f w = Some (Escaped status, w1)"
  shows "\<exists>w'. run_tests (pre @ (n, f) # post) [] w = Some (Inl status, w')"
proof -
  from run_tests_trace [OF assms(1), of "[]" w] obtain rs w1
    where pre: "run_tests pre [] w = Some (Inr rs, w1)" by auto
  from assms(2) obtain w2 where "f w1 = Some (Escaped status, w2)" by blast
  with pre show ?thesis by (simp add: run_tests_append)
qed

lemma run_tests_no_escape:
  "\<forall>t\<in>set tests. \<forall>w status w1. snd t w \<noteq> Some (Escaped status, w1) \<Longrightarrow>
   run_tests tests acc w \<noteq> Some (Inl status, w')"
proof (induction tests acc w rule: run_tests.induct)
  case (1 results w)
  then show ?case by simp
next
  case (2 test_name test_func tests results w)
  then show ?case
    by (auto split: option.splits outcome.splits prod.splits)
qed

lemma run_tests_last_failed:
  assumes "run_tests (tests @ [(n, f)]) acc w = Some (Inr results, w')"
    and "\<forall>w1. f w1 = Some (Returned False, w1)"
  shows "\<exists>r. results = r @ [(n, False)]"
proof -
  from assms(1) obtain r1 w1 where "run_tests tests acc w = Some (Inr r1, w1)"
    and "run_tests [(n, f)] r1 w1 = Some (Inr results, w')"
    by (auto simp add: run_tests_append split: option.splits sum.splits prod.splits)
  with assms(2) show ?thesis by auto
qed





text \<open>The loops return exactly when the reads that they reach answer.\<close>

lemma probe_baseline_returns:
  "probe_baseline s d acc \<noteq> None \<longleftrightarrow> baseline_reads_answer s d"
  by (simp add: probe_baseline_def baseline_reads_answer_def answers_def split: call.splits)

lemma test_baseline_returns:
  "test_baseline s devs acc \<noteq> None \<longleftrightarrow> (\<forall>d\<in>set devs. baseline_reads_answer s d)"
proof (induction devs arbitrary: acc)
  case Nil
  then show ?case by simp
next
  case (Cons d devs)
  show ?case
  proof (cases "probe_baseline s d acc")
    case None
    then show ?thesis using probe_baseline_returns [of s d acc] by simp
  next
    case (Some r)
    then show ?thesis using probe_baseline_returns [of s d acc] Cons.IH [of r] by simp
  qed
qed

lemma test_pvs_loop_returns:
  "test_pvs_loop self ep c names k \<noteq> None \<longleftrightarrow> (\<forall>n\<in>set names. pv_reads_answer self ep c n)"
proof (induction names arbitrary: k)
  case Nil
  then show ?case by simp
next
  case (Cons n names)
  then show ?case
    by (auto simp add: pv_reads_answer_def [of self ep c n] answers_def split: call.splits bool.splits)
qed

text \<open>
  With pairwise distinct device names the dictionary of the motors has one entry for each
  motor, in the order of discovery, and the connected count is the number of its entries
  that are connected.
\<close>

lemma probe_motor_shape:
  "probe_motor s d acc = Some r \<Longrightarrow> \<exists>e. r = AList.update (dev_name d) e acc"
  by (auto simp add: probe_motor_def Let_def split: call.splits sum.splits)

lemma probe_motor_names:
  assumes "probe_motor s d acc = Some r"
  shows "map fst r =
    (if dev_name d \<in> set (map fst acc) then map fst acc else map fst acc @ [dev_name d])"
proof -
  from probe_motor_shape [OF assms] obtain e where "r = AList.update (dev_name d) e acc" ..
  then show ?thesis by (simp only: AList.update_keys)
qed

lemma test_motors_names:
  "test_motors s devs acc = Some r \<Longrightarrow> distinct (map dev_name devs) \<Longrightarrow>
   dev_name ` set devs \<inter> fst ` set acc = {} \<Longrightarrow> map fst r = map fst acc @ map dev_name devs"
proof (induction devs arbitrary: acc)
  case Nil
  then show ?case by simp
next
  case (Cons d devs)
  from Cons.prems(1) obtain r1 where p: "probe_motor s d acc = Some r1"
    and rest: "test_motors s devs r1 = Some r"
    by (auto split: option.splits)
  from Cons.prems(3) have "dev_name d \<notin> set (map fst acc)" by auto
  with probe_motor_names [OF p] have k: "map fst r1 = map fst acc @ [dev_name d]" by simp
  from arg_cong [OF k, of set] have ks: "fst ` set r1 = fst ` set acc \<union> {dev_name d}" by simp
  from Cons.prems(2) have nd: "dev_name d \<notin> dev_name ` set devs" and dd: "distinct (map dev_name devs)"
    by simp_all
  from Cons.prems(3) have "dev_name ` set devs \<inter> fst ` set acc = {}" by auto
  with ks nd have disj: "dev_name ` set devs \<inter> fst ` set r1 = {}" by auto
  from Cons.IH [OF rest dd disj] k show ?case by simp
qed

lemma count_connected_filter:
  "count_connected r = length (filter get_connected (map snd r))"
  by (simp add: count_connected_def sum_list_triv)

lemma connectivity_counts_distinct_names:
  assumes "test_motors s devs [] = Some r" and "distinct (map dev_name devs)"
  shows "length r = length devs \<and> count_connected r = length (filter get_connected (map snd r))"
proof -
  from test_motors_names [OF assms] have "map fst r = map dev_name devs" by simp
  from arg_cong [OF this, of length] show ?thesis by (simp add: count_connected_filter)
qed

text \<open>Data collection fails without a motor or without a detector, and then so does the run.\<close>

lemma data_collection_guard:
  "startup inst = Returns () \<Longrightarrow>
   discover (devices_by_label inst) ''motors'' = [] \<or> discover (devices_by_label inst) ''detectors'' = [] \<Longrightarrow>
   test_data_collection inst s = Some (False, s)"
  by (auto simp add: test_data_collection_def split: option.splits list.splits)

lemma main_fails_when_data_collection_fails:
  assumes "\<forall>s1. test_data_collection inst s1 = Some (False, s1)"
    and "test_devices_main (test_devices_tests inst) s = Some (code, s')"
  shows "code = 1"
proof -
  let ?pre = "[(''Device Connectivity'',
        \<lambda>s. map_option (\<lambda>b. (Returned b, s)) (test_device_connectivity inst s)),
     (''Device Operations'',
        \<lambda>s. map_option (\<lambda>(b, s'). (Returned b, s')) (test_device_operations inst s))]"
  let ?f = "\<lambda>s. map_option (\<lambda>(b, s'). (Returned b, s')) (test_data_collection inst s)"
  have tests: "test_devices_tests inst = ?pre @ [(''Data Collection'', ?f)]"
    by (simp add: test_devices_tests_def)
  have "\<forall>t\<in>set (test_devices_tests inst). \<forall>w status w1. snd t w \<noteq> Some (Escaped status, w1)"
    by (auto simp add: test_devices_tests_def)
  then have noesc: "run_tests (test_devices_tests inst) [] s \<noteq> Some (Inl status, w')" for status w'
    by (rule run_tests_no_escape)
  from assms(2) noesc obtain results
    where run: "run_tests (test_devices_tests inst) [] s = Some (Inr results, s')"
      and code: "code = (if count_passed results 0 = length results then 0 else 1)"
    by (auto simp add: test_devices_main_def Let_def split: option.splits sum.splits if_splits)
  from assms(1) have ff: "\<forall>w1. ?f w1 = Some (Returned False, w1)" by simp
  from run have run': "run_tests (?pre @ [(''Data Collection'', ?f)]) [] s = Some (Inr results, s')"
    by (simp only: tests)
  from run_tests_last_failed [OF run' ff] obtain r
    where "results = r @ [(''Data Collection'', False)]" by blast
  then have "\<not> (\<forall>x\<in>set results. snd x)" by auto
  with code show ?thesis by (simp add: all_passed_conv)
qed

text \<open>
  The scaler test, unlike the motion test, changes the state of the IOC; with a negative
  sleep length it has written before it fails.
\<close>

lemma test_scaler_count_writes:
  "test_scaler_count (Some sim_epics) ''gp:scaler1'' 2 0 = Some (True, 1)"
  by (simp add: test_scaler_count_def sim_epics_def)

lemma test_scaler_count_negative_time:
  "test_scaler_count (Some sim_epics) ''gp:scaler1'' (- 1) 0 = Some (False, 1)"
  by (simp add: test_scaler_count_def sim_epics_def)

text \<open>
  The operations suite returns \<open>True\<close> whenever it gets as far as its two tests. The exit
  code of a run is fixed by what the suites return, or by the suite that escapes.
\<close>

lemma operations_true:
  assumes "startup inst = Returns ()" and "RE inst \<noteq> None"
    and "test_device_operations inst s = Some (b, s')"
  shows "b"
  using assms
  by (auto simp add: test_device_operations_def split: option.splits list.splits)

lemma exit_code_completing:
  assumes c: "\<forall>t\<in>set tests. \<forall>w. completes (snd t w)"
  shows "\<exists>ws. length ws = length tests \<and>
         (\<forall>i<length tests. \<exists>out. snd (tests ! i) ((w # ws) ! i) = Some (out, ws ! i)) \<and>
         test_devices_main tests w =
           Some (if (\<forall>i<length tests. snd (tests ! i) ((w # ws) ! i) = Some (Returned True, ws ! i))
                 then 0 else 1, last (w # ws)) \<and>
         validate_setup_main tests w =
           Some (if (\<forall>i<length tests. snd (tests ! i) ((w # ws) ! i) = Some (Returned True, ws ! i))
                 then 0 else 1, last (w # ws))"
proof -
  from run_tests_trace [OF c, of "[]" w] obtain rs ws
    where run: "run_tests tests [] w = Some (Inr rs, last (w # ws))"
      and lw: "length ws = length tests" and lr: "length rs = length tests"
      and tr: "\<forall>i<length tests. \<exists>out.
              snd (tests ! i) ((w # ws) ! i) = Some (out, ws ! i) \<and>
              rs ! i = (fst (tests ! i), out = Returned True)"
    by auto
  let ?all = "\<forall>i<length tests. snd (tests ! i) ((w # ws) ! i) = Some (Returned True, ws ! i)"
  have each: "snd (rs ! i) \<longleftrightarrow> snd (tests ! i) ((w # ws) ! i) = Some (Returned True, ws ! i)"
    if "i < length tests" for i
  proof -
    from tr that obtain out where a: "snd (tests ! i) ((w # ws) ! i) = Some (out, ws ! i)"
      and b: "rs ! i = (fst (tests ! i), out = Returned True)" by blast
    show ?thesis by (simp add: a b)
  qed
  have "(\<forall>r\<in>set rs. snd r) \<longleftrightarrow> (\<forall>i<length tests. snd (rs ! i))"
    using lr by (simp add: all_set_conv_all_nth)
  also have "\<dots> \<longleftrightarrow> ?all" using each by blast
  finally have pass: "count_passed rs 0 = length rs \<longleftrightarrow> ?all"
    by (simp only: all_passed_conv)
  have chain: "\<forall>i<length tests. \<exists>out. snd (tests ! i) ((w # ws) ! i) = Some (out, ws ! i)"
    using tr by blast
  have m1: "test_devices_main tests w = Some (if ?all then 0 else 1, last (w # ws))"
  proof (cases "count_passed rs 0 = length rs")
    case True
    with pass have ?all by blast
    with True run show ?thesis by (simp add: test_devices_main_def Let_def)
  next
    case False
    with pass have "\<not> ?all" by blast
    with False run show ?thesis by (simp add: test_devices_main_def Let_def)
  qed
  have m2: "validate_setup_main tests w = Some (if ?all then 0 else 1, last (w # ws))"
  proof (cases "count_passed rs 0 = length rs")
    case True
    with pass have ?all by blast
    with True run show ?thesis
      by (simp add: validate_setup_main_def generate_summary_report_def)
  next
    case False
    with pass have "\<not> ?all" by blast
    with False run show ?thesis
      by (simp add: validate_setup_main_def generate_summary_report_def)
  qed
  show ?thesis
    by (rule exI [of _ ws]) (intro conjI lw chain m1 m2)
qed

lemma exit_code_escaping:
  assumes "\<forall>t\<in>set pre. \<forall>w. completes (snd t w)"
    and "\<forall>w. \<exists>w1. f w = Some (Escaped status, w1)"
  shows "\<exists>w'. test_devices_main (pre @ (n, f) # post) w = Some (status, w') \<and>
            validate_setup_main (pre @ (n, f) # post) w = Some (status, w')"
proof -
  from run_tests_escape [OF assms, of n post w]
  obtain w' where "run_tests (pre @ (n, f) # post) [] w = Some (Inl status, w')" ..
  then have "test_devices_main (pre @ (n, f) # post) w = Some (status, w') \<and>
            validate_setup_main (pre @ (n, f) # post) w = Some (status, w')"
    by (simp add: test_devices_main_def validate_setup_main_def generate_summary_report_def)
  then show ?thesis by (rule exI [of _ w'])
qed

section \<open>The claims\<close>

subsection \<open>Counts of a suite report\<close>

text \<open>
  Claim C1: after every record operation the passed count of a suite report is the number
  of its results that passed, and the total count is the length of its result sequence.
  The tally of \<open>main\<close> has this property (\<open>main_tally_invariant\<close>), and so has the
  connectivity summary when the device names are distinct
  (\<open>connectivity_counts_distinct_names\<close>). The connectivity summary takes its total from
  the device list and its connected count from a dictionary keyed by device name: for two
  connected motors that are both named \<open>m1\<close> the dictionary holds one result, the summary
  reports 1 of 2 connected, and the test returns \<open>False\<close>.
\<close>

theorem connectivity_counts_duplicate_name:
  "connectivity_summary (sim_instrument [sim_motor ''m1'', sim_motor ''m1'']) 0 =
     Some \<lparr>motor_results = [(''m1'', Entry True (PFloat 0, - 100, 100))],
           detector_results = [], baseline_results = [],
           total_motors = 2, connected_motors = 1,
           total_detectors = 0, connected_detectors = 0,
           total_baseline = 0, connected_baseline = 0\<rparr> \<and>
   test_device_connectivity (sim_instrument [sim_motor ''m1'', sim_motor ''m1'']) 0 = Some False"
  by (simp add: test_device_connectivity_def connectivity_summary_def sim_instrument_def
      sim_motor_def discover_def probe_motor_def count_connected_def total_devices_def
      connected_devices_def)

subsection \<open>Exit code\<close>

text \<open>
  Claim C2 says that the exit code of a validation run is 0 when every suite that was run
  has all of its items passed and 1 otherwise, and that no other exit code is produced.
  A suite that raises SystemExit with status 3 ends \<open>main\<close> with the exit code 3, since
  \<open>except Exception\<close> does not catch it. And on an instrument whose engine refuses every
  move and every count, both tests of the operations suite fail, the suite returns
  \<open>True\<close> all the same, and the run exits with 0.
\<close>

theorem exit_code_counterexample:
  "test_devices_main [(''A'', \<lambda>w::nat. Some (Escaped 3, w))] 0 = Some (3, 0) \<and>
   motor_motion_test scan_only_engine (plain_device ''m1'') 1 = Some (MotionFailed ''motor stalled'', 1) \<and>
   detector_count_test scan_only_engine (plain_device ''det1'') 1 = Some (False, 1) \<and>
   test_devices_main (test_devices_tests scan_only_instrument) 1 = Some (0, 2)"
  by (simp add: test_devices_main_def test_devices_tests_def scan_only_instrument_def
      discover_def test_device_connectivity_def connectivity_summary_def probe_motor_def
      probe_detector_def count_connected_def total_devices_def connected_devices_def
      test_device_operations_def motor_motion_test_def read_position_def plain_device_def
      detector_count_test_def test_data_collection_def run_catalog_def)

text \<open>
  Claim C2, as the code has it, for \<open>main\<close> of \<open>test_devices.py\<close> and of
  \<open>validate_setup.py\<close>. When every suite returns or raises an \<open>Exception\<close>, each suite is
  called on the world that the suite before it left, and the exit code is 0 if every
  suite function returned \<open>True\<close> and 1 if not. When a suite raises an exception that is
  not an \<open>Exception\<close>, after suites that return or raise an \<open>Exception\<close>, the exit code is
  the exit status of that exception. What a suite function returns is its own verdict:
  the operations suite returns \<open>True\<close> whenever the instrument loads and has a RunEngine,
  whatever its two tests report.
\<close>

theorem exit_code_of_run:
  "((\<forall>t\<in>set tests. \<forall>w. completes (snd t w)) \<longrightarrow>
      (\<exists>ws. length ws = length tests \<and>
         (\<forall>i<length tests. \<exists>out. snd (tests ! i) ((w # ws) ! i) = Some (out, ws ! i)) \<and>
         test_devices_main tests w =
           Some (if (\<forall>i<length tests. snd (tests ! i) ((w # ws) ! i) = Some (Returned True, ws ! i))
                 then 0 else 1, last (w # ws)) \<and>
         validate_setup_main tests w =
           Some (if (\<forall>i<length tests. snd (tests ! i) ((w # ws) ! i) = Some (Returned True, ws ! i))
                 then 0 else 1, last (w # ws)))) \<and>
   ((\<forall>t\<in>set pre. \<forall>w. completes (snd t w)) \<and> (\<forall>w. \<exists>w1. f w = Some (Escaped status, w1)) \<longrightarrow>
      (\<exists>w'. test_devices_main (pre @ (n, f) # post) w = Some (status, w') \<and>
            validate_setup_main (pre @ (n, f) # post) w = Some (status, w'))) \<and>
   (startup inst = Returns () \<and> RE inst \<noteq> None \<and>
    test_device_operations inst s = Some (b, s') \<longrightarrow> b)"
proof (intro conjI)
  show "(\<forall>t\<in>set tests. \<forall>w. completes (snd t w)) \<longrightarrow>
      (\<exists>ws. length ws = length tests \<and>
         (\<forall>i<length tests. \<exists>out. snd (tests ! i) ((w # ws) ! i) = Some (out, ws ! i)) \<and>
         test_devices_main tests w =
           Some (if (\<forall>i<length tests. snd (tests ! i) ((w # ws) ! i) = Some (Returned True, ws ! i))
                 then 0 else 1, last (w # ws)) \<and>
         validate_setup_main tests w =
           Some (if (\<forall>i<length tests. snd (tests ! i) ((w # ws) ! i) = Some (Returned True, ws ! i))
                 then 0 else 1, last (w # ws)))"
    by (rule impI) (rule exit_code_completing)
  show "(\<forall>t\<in>set pre. \<forall>w. completes (snd t w)) \<and> (\<forall>w. \<exists>w1. f w = Some (Escaped status, w1)) \<longrightarrow>
      (\<exists>w'. test_devices_main (pre @ (n, f) # post) w = Some (status, w') \<and>
            validate_setup_main (pre @ (n, f) # post) w = Some (status, w'))"
  proof (rule impI)
    assume a: "(\<forall>t\<in>set pre. \<forall>w. completes (snd t w)) \<and>
      (\<forall>w. \<exists>w1. f w = Some (Escaped status, w1))"
    from a have a1: "\<forall>t\<in>set pre. \<forall>w. completes (snd t w)" by (rule conjunct1)
    from a have a2: "\<forall>w. \<exists>w1. f w = Some (Escaped status, w1)" by (rule conjunct2)
    from a1 a2 show "\<exists>w'. test_devices_main (pre @ (n, f) # post) w = Some (status, w') \<and>
            validate_setup_main (pre @ (n, f) # post) w = Some (status, w')"
      by (rule exit_code_escaping)
  qed
  show "startup inst = Returns () \<and> RE inst \<noteq> None \<and>
    test_device_operations inst s = Some (b, s') \<longrightarrow> b"
    using operations_true [of inst s b s'] by blast
qed

text \<open>
  A run with a suite that raises exits with 1, a run of one passing suite with 0, a run
  with a suite that escapes with status 3 exits with 3, and the operations suite on the
  engine that refuses moves and counts returns \<open>True\<close>.
\<close>

theorem exit_code_of_run_witness:
  "test_devices_main
     [(''A'', \<lambda>w::nat. Some (Returned True, w + 1)), (''B'', \<lambda>w. Some (Raised ''boom'', w + 10))] 0 =
     Some (1, 11) \<and>
   validate_setup_main [(''A'', \<lambda>w::nat. Some (Returned True, w + 1))] 0 = Some (0, 1) \<and>
   test_devices_main
     ([(''A'', \<lambda>w::nat. Some (Returned True, w + 1))] @ (''B'', \<lambda>w. Some (Escaped 3, w)) # []) 0 =
     Some (3, 1) \<and>
   test_device_operations scan_only_instrument 1 = Some (True, 1)"
  using exit_code_of_run
    [of "[(''A'', \<lambda>w::nat. Some (Returned True, w + 1)), (''B'', \<lambda>w. Some (Raised ''boom'', w + 10))]"
        0 "[(''A'', \<lambda>w::nat. Some (Returned True, w + 1))]" "\<lambda>w. Some (Escaped 3, w)" 3 "''B''" "[]"
        scan_only_instrument 1 True 1]
  by (simp add: test_devices_main_def validate_setup_main_def generate_summary_report_def
      test_device_operations_def scan_only_instrument_def discover_def motor_motion_test_def
      read_position_def plain_device_def detector_count_test_def)

subsection \<open>Suites run one after the other, whatever their outcomes\<close>

text \<open>
  Claim C3 says that no exception raised by a suite keeps a later suite from being run
  and recorded. A first suite that raises SystemExit ends the run with its exit status:
  the second suite, which would have changed the world, is not called, and nothing is
  recorded.
\<close>

theorem escaping_suite_ends_run_counterexample:
  "run_tests [(''A'', \<lambda>w::nat. Some (Escaped 3, w)),
              (''B'', \<lambda>w. Some (Returned True, w + 10))] [] 0 = Some (Inl 3, 0)"
  by simp

text \<open>
  Claim C3, as the code has it: for every list of suites in which each suite returns or
  raises an exception that \<open>except Exception\<close> catches, the loop returns one result per
  scheduled suite, and there is a sequence of worlds, starting with the initial one and
  ending with the final one, such that the suite at each position is called on the world
  that its predecessor left and hands on the next world, and the result recorded at that
  position is the name of the suite with \<open>True\<close> if the suite returned \<open>True\<close> and with
  \<open>False\<close> if it returned \<open>False\<close> or raised. So each suite has completed before the
  next begins, and a failure or an \<open>Exception\<close> of a suite keeps no later suite from being
  run and recorded.
\<close>

theorem suites_called_in_order:
  assumes "\<forall>t\<in>set tests. \<forall>w. completes (snd t w)"
  shows "\<exists>results ws. run_tests tests [] w = Some (Inr results, last (w # ws)) \<and>
           length ws = length tests \<and> length results = length tests \<and>
           (\<forall>i<length tests. \<exists>out.
              snd (tests ! i) ((w # ws) ! i) = Some (out, ws ! i) \<and>
              results ! i = (fst (tests ! i), out = Returned True))"
  using run_tests_trace [OF assms, of "[]" w] by simp

text \<open>
  A first suite that raises is recorded as failed, and the second suite is called on the
  world that the first one left.
\<close>

theorem suites_called_in_order_witness:
  "run_tests [(''A'', \<lambda>w::nat. Some (Raised ''boom'', w + 1)),
              (''B'', \<lambda>w. Some (Returned True, w + 10))] [] 0 =
     Some (Inr [(''A'', False), (''B'', True)], 11)"
  using suites_called_in_order
    [of "[(''A'', \<lambda>w::nat. Some (Raised ''boom'', w + 1)), (''B'', \<lambda>w. Some (Returned True, w + 10))]" 0]
  by simp

subsection \<open>Probes return their classification as data\<close>



subsection \<open>No timeout bounds the connectivity check\<close>

text \<open>
  Claim C5 says that the connectivity check returns within the timeout for every device,
  also for one whose read never returns. The loop over the baseline devices passes no
  timeout at all, and the explorer hands its fixed timeout to \<open>wait_for_connection\<close> of
  the backend: with a read that never returns, the loop, the connectivity test and the
  explorer's check never return.
\<close>

theorem unanswered_read_blocks_counterexample:
  "test_baseline 0 [silent_motor ''t1''] [] = None \<and>
   test_device_connectivity
     ((sim_instrument [])\<lparr>devices_by_label := [''baseline'' \<mapsto> [silent_motor ''t1'']]\<rparr>) 0 = None \<and>
   test_connectivity IOCExplorer (Some silent_epics) 0 = None"
  by (simp add: silent_motor_def sim_motor_def probe_baseline_def test_device_connectivity_def
      connectivity_summary_def sim_instrument_def discover_def test_connectivity_def
      silent_epics_def sim_epics_def IOCExplorer_def)

text \<open>
  Claim C5, as the code has it: the loop over the baseline devices returns exactly when,
  for every device, the reads that its probe reaches answer; the explorer's loop over its
  test PVs returns exactly when, for every PV, the calls that its check reaches answer.
\<close>

theorem connectivity_returns_iff_reads_answer:
  "(test_baseline s devs results \<noteq> None \<longleftrightarrow> (\<forall>d\<in>set devs. baseline_reads_answer s d)) \<and>
   (test_pvs_loop self ep c names k \<noteq> None \<longleftrightarrow> (\<forall>n\<in>set names. pv_reads_answer self ep c n))"
  by (simp only: test_baseline_returns test_pvs_loop_returns)

text \<open>Devices and PVs that answer: the loops return.\<close>

theorem connectivity_returns_iff_reads_answer_witness:
  "baseline_reads_answer 0 (sim_motor ''t1'') \<and>
   baseline_reads_answer 0 (faulty_motor ''t2'') \<and>
   test_baseline 0 [sim_motor ''t1'', faulty_motor ''t2''] [] \<noteq> None \<and>
   pv_reads_answer IOCExplorer sim_epics 0 ''gp:m1.DESC'' \<and>
   pv_reads_answer IOCExplorer sim_epics 0 ''adsim:cam1:Acquire'' \<and>
   test_pvs_loop IOCExplorer sim_epics 0 [''gp:m1.DESC'', ''adsim:cam1:Acquire''] 0 \<noteq> None"
  using connectivity_returns_iff_reads_answer
    [of 0 "[sim_motor ''t1'', faulty_motor ''t2'']" "[]" IOCExplorer sim_epics 0
        "[''gp:m1.DESC'', ''adsim:cam1:Acquire'']" 0]
  by (simp add: baseline_reads_answer_def pv_reads_answer_def answers_def sim_motor_def
      faulty_motor_def sim_epics_def)

subsection \<open>Discovery of a label that was never registered\<close>

text \<open>
  Claim C6 says that discovery raises \<open>UnknownLabelError\<close> for a label that was never
  registered. Discovery is \<open>dict.get\<close> with the default \<open>[]\<close>: for a label that was never
  registered it returns the empty sequence, as it does for a registered label without
  devices.
\<close>

theorem discover_never_registered_counterexample:
  "discover (Map.empty :: string \<rightharpoonup> unit device list) ''unregistered-label'' = [] \<and>
   discover [''support'' \<mapsto> ([] :: unit device list)] ''support'' = []"
  by (simp add: discover_def)

text \<open>
  Claim C6, as the code has it: discovery returns the empty sequence for a label that was
  never registered and the registered sequence, empty or not, for a registered label; it
  has no error result.
\<close>

theorem discover_returns_sequence:
  "(registry label = None \<longrightarrow> discover registry label = []) \<and>
   (\<forall>devices. registry label = Some devices \<longrightarrow> discover registry label = devices)"
  by (simp add: discover_def)

text \<open>An unregistered label and a label with one motor.\<close>

theorem discover_returns_sequence_witness:
  "discover (Map.empty :: string \<rightharpoonup> unit device list) ''motors'' = [] \<and>
   discover [''motors'' \<mapsto> [sim_motor ''m1'']] ''motors'' = [sim_motor ''m1'']"
  using discover_returns_sequence [of "Map.empty :: string \<rightharpoonup> unit device list" "''motors''"]
    discover_returns_sequence [of "[''motors'' \<mapsto> [sim_motor ''m1'']]" "''motors''"]
  by simp

subsection \<open>Suites that discover nothing\<close>

text \<open>
  Claim C7 says that a suite whose discovery yields nothing does not by itself make the
  run fail. On an instrument that loads, has a RunEngine and a catalog, and has no device
  at all, the connectivity and the operations suite pass and the data collection suite
  fails for want of devices: the run exits with 1.
\<close>

theorem empty_suite_fails_run_counterexample:
  "run_tests (test_devices_tests (sim_instrument [])) [] 0 =
     Some (Inr [(''Device Connectivity'', True), (''Device Operations'', True),
                (''Data Collection'', False)], 0) \<and>
   test_devices_main (test_devices_tests (sim_instrument [])) 0 = Some (1, 0)"
  by (simp add: test_devices_main_def test_devices_tests_def sim_instrument_def discover_def
      test_device_connectivity_def connectivity_summary_def count_connected_def
      total_devices_def connected_devices_def test_device_operations_def
      test_data_collection_def sim_catalog_def)

text \<open>
  Claim C7, as the code has it, for an instrument that loads: when no motor, no detector
  and no baseline device is discovered, the connectivity suite passes, and so does the
  operations suite when there is a RunEngine; when no motor or no detector is discovered,
  the data collection suite and the plan simulation suite return \<open>False\<close>, and the run of
  \<open>test_devices.py\<close> exits with 1 whenever it exits.
\<close>

theorem empty_discovery_outcomes:
  assumes "startup inst = Returns ()"
  shows "(discover (devices_by_label inst) ''motors'' = [] \<and>
          discover (devices_by_label inst) ''detectors'' = [] \<and>
          discover (devices_by_label inst) ''baseline'' = [] \<longrightarrow>
            test_device_connectivity inst s = Some True \<and>
            (RE inst \<noteq> None \<longrightarrow> test_device_operations inst s = Some (True, s))) \<and>
         (discover (devices_by_label inst) ''motors'' = [] \<or>
          discover (devices_by_label inst) ''detectors'' = [] \<longrightarrow>
            test_data_collection inst s = Some (False, s) \<and>
            test_plan_simulation (Returns (Some inst)) run_custom_plans s = Some (False, s) \<and>
            (\<forall>code s'. test_devices_main (test_devices_tests inst) s = Some (code, s') \<longrightarrow> code = 1))"
proof (intro conjI impI)
  assume e: "discover (devices_by_label inst) ''motors'' = [] \<and>
          discover (devices_by_label inst) ''detectors'' = [] \<and>
          discover (devices_by_label inst) ''baseline'' = []"
  with assms show "test_device_connectivity inst s = Some True"
    by (simp add: test_device_connectivity_def connectivity_summary_def count_connected_def
        total_devices_def connected_devices_def)
  assume "RE inst \<noteq> None"
  with assms e show "test_device_operations inst s = Some (True, s)"
    by (auto simp add: test_device_operations_def)
next
  assume e: "discover (devices_by_label inst) ''motors'' = [] \<or>
          discover (devices_by_label inst) ''detectors'' = []"
  with assms show "test_data_collection inst s = Some (False, s)"
    by (rule data_collection_guard)
  from e show "test_plan_simulation (Returns (Some inst)) run_custom_plans s = Some (False, s)"
    by (auto simp add: test_plan_simulation_def split: option.splits list.splits)
  have "test_data_collection inst s1 = Some (False, s1)" for s1
    using assms e by (rule data_collection_guard)
  then have dc: "\<forall>s1. test_data_collection inst s1 = Some (False, s1)" ..
  show "\<forall>code s'. test_devices_main (test_devices_tests inst) s = Some (code, s') \<longrightarrow> code = 1"
  proof (intro allI impI)
    fix code s'
    assume "test_devices_main (test_devices_tests inst) s = Some (code, s')"
    with dc show "code = 1" by (rule main_fails_when_data_collection_fails)
  qed
qed

text \<open>The instrument without devices.\<close>

theorem empty_discovery_outcomes_witness:
  "startup (sim_instrument []) = Returns () \<and>
   discover (devices_by_label (sim_instrument [])) ''motors'' = [] \<and>
   test_device_connectivity (sim_instrument []) 0 = Some True \<and>
   test_device_operations (sim_instrument []) 0 = Some (True, 0) \<and>
   test_data_collection (sim_instrument []) 0 = Some (False, 0)"
  using empty_discovery_outcomes [of "sim_instrument []" 0]
  by (simp add: sim_instrument_def discover_def)

subsection \<open>Moving forth and back\<close>

text \<open>
  Claim C8 says that a move by a displacement and back leaves every motion device within
  a tolerance of its first position. The motion test prints the three positions and
  compares nothing: on an axis that does not run backwards it passes with a final
  position that is off by the whole displacement.
\<close>

theorem round_trip_forward_only_counterexample:
  "motor_motion_test forward_only_engine (sim_motor ''m1'') 0 =
     Some (MotionPassed 0 move_amount move_amount, move_amount) \<and>
   \<bar>move_amount - 0\<bar> = move_amount \<and> 0 < move_amount"
  by (simp add: motor_motion_test_def read_position_def sim_motor_def move_amount_def)

text \<open>
  Claim C8, as the code has it: the motion test moves the first motor by the fixed
  displacement \<open>move_amount\<close> and then by \<open>-move_amount\<close>; when the three reads of the
  position return floats and the two moves complete, it passes, whatever the three
  positions are. If each of the two moves brings the reported position to within a
  tolerance of the position reported before it plus the displacement requested, then the
  final position is within twice that tolerance of the initial one.
\<close>

theorem round_trip_within_tolerance:
  assumes "dev_position motor s = Returns (PFloat p0)"
    and "engine (Mvr motor move_amount) s = (Returns (), s1)"
    and "dev_position motor s1 = Returns (PFloat p1)"
    and "engine (Mvr motor (- move_amount)) s1 = (Returns (), s2)"
    and "dev_position motor s2 = Returns (PFloat p2)"
  shows "motor_motion_test engine motor s = Some (MotionPassed p0 p1 p2, s2) \<and>
         (\<bar>p1 - (p0 + move_amount)\<bar> \<le> tol \<and> \<bar>p2 - (p1 - move_amount)\<bar> \<le> tol \<longrightarrow>
            \<bar>p2 - p0\<bar> \<le> 2 * tol)"
proof
  show "motor_motion_test engine motor s = Some (MotionPassed p0 p1 p2, s2)"
    using assms by (simp add: motor_motion_test_def read_position_def)
  show "\<bar>p1 - (p0 + move_amount)\<bar> \<le> tol \<and> \<bar>p2 - (p1 - move_amount)\<bar> \<le> tol \<longrightarrow>
            \<bar>p2 - p0\<bar> \<le> 2 * tol"
    by arith
qed

text \<open>
  The simulated axis under the exact engine, from position 0, where the sums are exact
  for floats as well.
\<close>

theorem round_trip_within_tolerance_witness:
  "dev_position (sim_motor ''m1'') 0 = Returns (PFloat 0) \<and>
   exact_engine (Mvr (sim_motor ''m1'') move_amount) 0 = (Returns (), move_amount) \<and>
   motor_motion_test exact_engine (sim_motor ''m1'') 0 = Some (MotionPassed 0 move_amount 0, 0)"
  using round_trip_within_tolerance
    [of "sim_motor ''m1''" 0 0 exact_engine move_amount move_amount 0 0 0]
  by (simp add: sim_motor_def)

subsection \<open>The static inventory of the explorer\<close>

text \<open>
  Claim C9: \<open>find_detectors\<close> returns the three scalers \<open>gp:scaler1\<close> to \<open>gp:scaler3\<close>
  and one area detector, without a call to an IOC; without PyEPICS, \<open>find_motors\<close>
  returns the twenty motors \<open>gp:m1\<close> to \<open>gp:m20\<close> in ascending order, whatever the state
  of the IOCs.
\<close>

theorem static_inventory:
  "map scaler_pv (scalers find_detectors) = [''gp:scaler1'', ''gp:scaler2'', ''gp:scaler3''] \<and>
   length (area_detectors find_detectors) = 1 \<and>
   (\<exists>ms. find_motors None c = Some ms \<and> length ms = 20 \<and> map motor_pv ms =
     [''gp:m1'', ''gp:m2'', ''gp:m3'', ''gp:m4'', ''gp:m5'', ''gp:m6'', ''gp:m7'', ''gp:m8'',
      ''gp:m9'', ''gp:m10'', ''gp:m11'', ''gp:m12'', ''gp:m13'', ''gp:m14'', ''gp:m15'',
      ''gp:m16'', ''gp:m17'', ''gp:m18'', ''gp:m19'', ''gp:m20''])"
  by (simp add: find_detectors_def find_motors_def upt_rec str_nat.simps digit_char_def)

subsection \<open>The motion test of the explorer only reads\<close>




end
